theory Spec2Isabelle
  imports Main
begin

section \<open>Values, option bags and the response sink\<close>

text \<open>
  The payload fields \<^verbatim>\<open>data\<close>, \<^verbatim>\<open>meta\<close> and \<^verbatim>\<open>errors\<close> are typed \<^verbatim>\<open>any\<close> in
  \<^verbatim>\<open>HttpResponse.ts\<close>. They are only stored and handed to the sink, never inspected, so
  a JSON value tree stands for them. \<^verbatim>\<open>null\<close> is a value of its own (\<open>JNull\<close>); the
  JavaScript \<^verbatim>\<open>undefined\<close> is not a value of this type, it is the \<open>Undef\<close> state of a
  property below. Numbers are only passed through, so \<open>int\<close> stands for them.
\<close>

datatype json =
    JNull
  | JBool bool
  | JNum int
  | JStr string
  | JArr "json list"
  | JObj "(string \<times> json) list"

text \<open>
  A property of an options object is in one of three states: the object has no such
  key (\<open>Absent\<close>), the key is there and holds \<^verbatim>\<open>undefined\<close> (\<open>Undef\<close>; TypeScript
  admits it for every \<^verbatim>\<open>?:\<close> member), or the key holds a value. The object spread
  tells the first two apart, the destructuring defaults do not.
\<close>

datatype 'a field = Absent | Undef | Value 'a

text \<open>
  \<^verbatim>\<open>interface ResponseOptions\<close>. The interfaces \<^verbatim>\<open>SuccessResponseOptions\<close> and
  \<^verbatim>\<open>ErrorResponseOptions\<close> both \<^verbatim>\<open>extend ResponseOptions\<close> and redeclare some of its
  members with the same types; an extending interface inherits every member of its
  base, so all three have the same six members and are the same type here. A header
  mapping \<^verbatim>\<open>Record<string, string>\<close> is the list of its entries, in the order in which
  \<^verbatim>\<open>Object.entries\<close> enumerates them.
\<close>

record ResponseOptions =
  message :: "string field"
  data :: "json field"
  meta :: "json field"
  errors :: "json field"
  headers :: "(string \<times> string) list field"
  statusCode :: "int field"

type_synonym SuccessResponseOptions = ResponseOptions
type_synonym ErrorResponseOptions = ResponseOptions

text \<open>\<^verbatim>\<open>type ResponseStatus = 'success' | 'error'\<close>, and the string each one is.\<close>

datatype ResponseStatus = SUCCESS | ERROR

fun status_str :: "ResponseStatus \<Rightarrow> string" where
  "status_str SUCCESS = ''success''"
| "status_str ERROR = ''error''"

text \<open>
  The Express response object is the external collaborator. What the formatter does to
  it is the sequence of method calls it makes on \<^verbatim>\<open>this.res\<close>:
  \<^verbatim>\<open>setHeader(key, value)\<close>, \<^verbatim>\<open>status(code)\<close>, \<^verbatim>\<open>json(body)\<close> and \<^verbatim>\<open>send()\<close> without a
  body. The state of a sink is the log of the calls made on it so far, oldest first;
  every method of the formatter takes the log and returns it extended.
\<close>

datatype effect =
    SetHeader string string
  | Status int
  | Json "(string \<times> json) list"
  | Send

type_synonym sink = "effect list"

subsection \<open>Object literals, spread and destructuring\<close>

text \<open>The empty object literal \<^verbatim>\<open>{}\<close>.\<close>

definition empty_options :: ResponseOptions where
  "empty_options = \<lparr>message = Absent, data = Absent, meta = Absent, errors = Absent,
     headers = Absent, statusCode = Absent\<rparr>"

text \<open>
  A parameter default \<^verbatim>\<open>options = {}\<close> applies when the argument is missing or
  \<^verbatim>\<open>undefined\<close> (\<open>None\<close>).
\<close>

fun default_arg :: "ResponseOptions option \<Rightarrow> ResponseOptions" where
  "default_arg None = empty_options"
| "default_arg (Some opts) = opts"

text \<open>
  \<^verbatim>\<open>{ ...base, ...opts }\<close>: every own key of \<^verbatim>\<open>opts\<close> is copied over the one of
  \<^verbatim>\<open>base\<close>, also a key that holds \<^verbatim>\<open>undefined\<close>; only a key \<^verbatim>\<open>opts\<close> does not have
  leaves the one of \<^verbatim>\<open>base\<close> in place.
\<close>

fun over :: "'a field \<Rightarrow> 'a field \<Rightarrow> 'a field" where
  "over b Absent = b"
| "over b Undef = Undef"
| "over b (Value v) = Value v"

definition spread :: "ResponseOptions \<Rightarrow> ResponseOptions \<Rightarrow> ResponseOptions" where
  "spread base opts =
     \<lparr>message = over (message base) (message opts),
      data = over (data base) (data opts),
      meta = over (meta base) (meta opts),
      errors = over (errors base) (errors opts),
      headers = over (headers base) (headers opts),
      statusCode = over (statusCode base) (statusCode opts)\<rparr>"

text \<open>
  Destructuring \<^verbatim>\<open>const { k } = options\<close> reads the property: a value, or
  \<^verbatim>\<open>undefined\<close> (\<open>None\<close>) when the key is absent or holds \<^verbatim>\<open>undefined\<close>. With a default,
  \<^verbatim>\<open>const { k = d } = options\<close>, the default replaces \<^verbatim>\<open>undefined\<close>.
\<close>

fun read_field :: "'a field \<Rightarrow> 'a option" where
  "read_field Absent = None"
| "read_field Undef = None"
| "read_field (Value v) = Some v"

fun with_default :: "'a field \<Rightarrow> 'a \<Rightarrow> 'a" where
  "with_default Absent d = d"
| "with_default Undef d = d"
| "with_default (Value v) d = v"

text \<open>
  \<^verbatim>\<open>response.k = v\<close> on a plain object: an existing key keeps its place and takes the
  new value, a new key goes last.
\<close>

fun set_prop :: "string \<Rightarrow> json \<Rightarrow> (string \<times> json) list \<Rightarrow> (string \<times> json) list" where
  "set_prop k v [] = [(k, v)]"
| "set_prop k v (p # ps) = (if fst p = k then (k, v) # ps else p # set_prop k v ps)"

section \<open>The formatter: \<^verbatim>\<open>HttpResponse.send\<close>\<close>

text \<open>
  \<^verbatim>\<open>for (const [key, value] of Object.entries(headers)) this.res.setHeader(key, value)\<close>
\<close>

fun set_headers :: "(string \<times> string) list \<Rightarrow> sink \<Rightarrow> sink" where
  "set_headers [] s = s"
| "set_headers ((key, val) # rest) s = set_headers rest (s @ [SetHeader key val])"

text \<open>
  \<^verbatim>\<open>send(status, options = {})\<close>. The instant \<open>now\<close> is what
  \<^verbatim>\<open>new Date().toISOString()\<close> returns at the call. \<^verbatim>\<open>if (headers)\<close> tests truthiness, and
  an object is truthy whatever it holds, so the loop runs exactly when \<^verbatim>\<open>headers\<close> is
  not \<^verbatim>\<open>undefined\<close>.
\<close>

definition send :: "string \<Rightarrow> ResponseStatus \<Rightarrow> ResponseOptions option \<Rightarrow> sink \<Rightarrow> sink" where
  "send now status options s =
     (let opts = default_arg options;
          message' = with_default (message opts)
                       (if status = SUCCESS then ''Success'' else ''Error'');
          data' = read_field (data opts);
          meta' = read_field (meta opts);
          errors' = read_field (errors opts);
          headers' = read_field (headers opts);
          statusCode' = with_default (statusCode opts)
                          (if status = SUCCESS then 200 else 500);
          s1 = (case headers' of None \<Rightarrow> s | Some hs \<Rightarrow> set_headers hs s);
          r0 = [(''status'', JStr (status_str status)), (''message'', JStr message')];
          r1 = (case data' of None \<Rightarrow> r0 | Some d \<Rightarrow> set_prop ''data'' d r0);
          r2 = (case errors' of None \<Rightarrow> r1 | Some e \<Rightarrow> set_prop ''errors'' e r1);
          r3 = (case meta' of None \<Rightarrow> r2 | Some m \<Rightarrow> set_prop ''meta'' m r2);
          response = set_prop ''timestamp'' (JStr now) r3
      in s1 @ [Status statusCode', Json response])"

section \<open>The named helpers of \<^verbatim>\<open>class HttpResponse\<close>\<close>

text \<open>
  Each helper builds the object literal \<^verbatim>\<open>{ preset..., ...options }\<close> and hands it to the
  next method, as the source does; \<^verbatim>\<open>error\<close> is defined before the helpers that call it.
\<close>

definition success :: "string \<Rightarrow> SuccessResponseOptions option \<Rightarrow> sink \<Rightarrow> sink" where
  "success now options s =
     send now SUCCESS (Some (spread (empty_options\<lparr>statusCode := Value 200\<rparr>)
                               (default_arg options))) s"

definition created :: "string \<Rightarrow> SuccessResponseOptions option \<Rightarrow> sink \<Rightarrow> sink" where
  "created now options s =
     success now (Some (spread (empty_options\<lparr>statusCode := Value 201, message := Value ''Resource created''\<rparr>)
                          (default_arg options))) s"

definition accepted :: "string \<Rightarrow> SuccessResponseOptions option \<Rightarrow> sink \<Rightarrow> sink" where
  "accepted now options s =
     success now (Some (spread (empty_options\<lparr>statusCode := Value 202, message := Value ''Accepted''\<rparr>)
                          (default_arg options))) s"

text \<open>
  \<^verbatim>\<open>noContent(): void { this.res.status(204).send(); }\<close> declares no parameter; \<open>args\<close> is
  the list of whatever a caller passes all the same, which the body never reads.
\<close>

definition noContent :: "json list \<Rightarrow> sink \<Rightarrow> sink" where
  "noContent args s = s @ [Status 204, Send]"

definition error :: "string \<Rightarrow> ErrorResponseOptions option \<Rightarrow> sink \<Rightarrow> sink" where
  "error now options s =
     send now ERROR (Some (spread (empty_options\<lparr>statusCode := Value 500\<rparr>)
                             (default_arg options))) s"

definition badRequest :: "string \<Rightarrow> ErrorResponseOptions option \<Rightarrow> sink \<Rightarrow> sink" where
  "badRequest now options s =
     error now (Some (spread (empty_options\<lparr>statusCode := Value 400, message := Value ''Bad Request''\<rparr>)
                        (default_arg options))) s"

definition unauthorized :: "string \<Rightarrow> ErrorResponseOptions option \<Rightarrow> sink \<Rightarrow> sink" where
  "unauthorized now options s =
     error now (Some (spread (empty_options\<lparr>statusCode := Value 401, message := Value ''Unauthorized''\<rparr>)
                        (default_arg options))) s"

definition forbidden :: "string \<Rightarrow> ErrorResponseOptions option \<Rightarrow> sink \<Rightarrow> sink" where
  "forbidden now options s =
     error now (Some (spread (empty_options\<lparr>statusCode := Value 403, message := Value ''Forbidden''\<rparr>)
                        (default_arg options))) s"

definition notFound :: "string \<Rightarrow> ErrorResponseOptions option \<Rightarrow> sink \<Rightarrow> sink" where
  "notFound now options s =
     error now (Some (spread (empty_options\<lparr>statusCode := Value 404, message := Value ''Not Found''\<rparr>)
                        (default_arg options))) s"

definition notAcceptable :: "string \<Rightarrow> ErrorResponseOptions option \<Rightarrow> sink \<Rightarrow> sink" where
  "notAcceptable now options s =
     error now (Some (spread (empty_options\<lparr>statusCode := Value 406, message := Value ''Not Acceptable''\<rparr>)
                        (default_arg options))) s"

definition conflict :: "string \<Rightarrow> ErrorResponseOptions option \<Rightarrow> sink \<Rightarrow> sink" where
  "conflict now options s =
     error now (Some (spread (empty_options\<lparr>statusCode := Value 409, message := Value ''Conflict''\<rparr>)
                        (default_arg options))) s"

definition gone :: "string \<Rightarrow> ErrorResponseOptions option \<Rightarrow> sink \<Rightarrow> sink" where
  "gone now options s =
     error now (Some (spread (empty_options\<lparr>statusCode := Value 410, message := Value ''Gone''\<rparr>)
                        (default_arg options))) s"

definition unsupportedMediaType :: "string \<Rightarrow> ErrorResponseOptions option \<Rightarrow> sink \<Rightarrow> sink" where
  "unsupportedMediaType now options s =
     error now (Some (spread (empty_options\<lparr>statusCode := Value 415, message := Value ''Unsupported Media Type''\<rparr>)
                        (default_arg options))) s"

definition unprocessableEntity :: "string \<Rightarrow> ErrorResponseOptions option \<Rightarrow> sink \<Rightarrow> sink" where
  "unprocessableEntity now options s =
     error now (Some (spread (empty_options\<lparr>statusCode := Value 422, message := Value ''Unprocessable Entity''\<rparr>)
                        (default_arg options))) s"

definition tooManyRequests :: "string \<Rightarrow> ErrorResponseOptions option \<Rightarrow> sink \<Rightarrow> sink" where
  "tooManyRequests now options s =
     error now (Some (spread (empty_options\<lparr>statusCode := Value 429, message := Value ''Too Many Requests''\<rparr>)
                        (default_arg options))) s"

definition serverError :: "string \<Rightarrow> ErrorResponseOptions option \<Rightarrow> sink \<Rightarrow> sink" where
  "serverError now options s =
     error now (Some (spread (empty_options\<lparr>message := Value ''Internal Server Error''\<rparr>)
                        (default_arg options))) s"

definition notImplemented :: "string \<Rightarrow> ErrorResponseOptions option \<Rightarrow> sink \<Rightarrow> sink" where
  "notImplemented now options s =
     error now (Some (spread (empty_options\<lparr>statusCode := Value 501, message := Value ''Not Implemented''\<rparr>)
                        (default_arg options))) s"

definition serviceUnavailable :: "string \<Rightarrow> ErrorResponseOptions option \<Rightarrow> sink \<Rightarrow> sink" where
  "serviceUnavailable now options s =
     error now (Some (spread (empty_options\<lparr>statusCode := Value 503, message := Value ''Service Unavailable''\<rparr>)
                        (default_arg options))) s"

section \<open>The attachment middleware\<close>

text \<open>
  The methods of the class, as the middleware names them. The arrow function the
  middleware stores under a name takes \<^verbatim>\<open>options?\<close> and calls that method of the
  instance with it; the one for \<^verbatim>\<open>noContent\<close> takes nothing and passes nothing.
\<close>

datatype Helper =
    Success
  | Created
  | Accepted
  | NoContent
  | BadRequest
  | Unauthorized
  | Forbidden
  | NotFound
  | NotAcceptable
  | Conflict
  | Gone
  | UnsupportedMediaType
  | UnprocessableEntity
  | TooManyRequests
  | Error
  | ServerError
  | NotImplemented
  | ServiceUnavailable

fun helper_call :: "Helper \<Rightarrow> string \<Rightarrow> ResponseOptions option \<Rightarrow> sink \<Rightarrow> sink" where
  "helper_call Success now options s = success now options s"
| "helper_call Created now options s = created now options s"
| "helper_call Accepted now options s = accepted now options s"
| "helper_call NoContent now options s = noContent [] s"
| "helper_call BadRequest now options s = badRequest now options s"
| "helper_call Unauthorized now options s = unauthorized now options s"
| "helper_call Forbidden now options s = forbidden now options s"
| "helper_call NotFound now options s = notFound now options s"
| "helper_call NotAcceptable now options s = notAcceptable now options s"
| "helper_call Conflict now options s = conflict now options s"
| "helper_call Gone now options s = gone now options s"
| "helper_call UnsupportedMediaType now options s = unsupportedMediaType now options s"
| "helper_call UnprocessableEntity now options s = unprocessableEntity now options s"
| "helper_call TooManyRequests now options s = tooManyRequests now options s"
| "helper_call Error now options s = error now options s"
| "helper_call ServerError now options s = serverError now options s"
| "helper_call NotImplemented now options s = notImplemented now options s"
| "helper_call ServiceUnavailable now options s = serviceUnavailable now options s"

text \<open>
  Objects live in a store. A response object of the host framework has the log of the
  calls made on it and the properties the middleware assigns; an instance of
  \<^verbatim>\<open>class HttpResponse\<close> has the one field \<^verbatim>\<open>res\<close>, a reference to a response object.
  \<^verbatim>\<open>new HttpResponse(res)\<close> allocates: the instances are numbered in the order of their
  creation, and a closure holds the number of the instance it closes over. \<open>env\<close> is
  the rest of the host program's state, which only the continuation touches.
\<close>

type_synonym addr = nat

record HttpResponse =
  res :: addr

datatype closure = Arrow Helper nat

record response_obj =
  calls :: sink
  props :: "string \<rightharpoonup> closure"

record 'e world =
  objs :: "addr \<Rightarrow> response_obj"
  instances :: "HttpResponse list"
  env :: 'e

text \<open>\<^verbatim>\<open>res.k = f\<close>: the property assignment on the response object at \<open>a\<close>.\<close>

definition assign :: "addr \<Rightarrow> string \<Rightarrow> closure \<Rightarrow> 'e world \<Rightarrow> 'e world" where
  "assign a k f w = w\<lparr>objs := (objs w)(a := (objs w a)\<lparr>props := (props (objs w a))(k \<mapsto> f)\<rparr>)\<rparr>"

text \<open>
  \<^verbatim>\<open>responseMiddleware(req, res, next)\<close>; \<open>resp\<close> is the reference \<^verbatim>\<open>res\<close>. The
  continuation gets its argument list (\<^verbatim>\<open>next()\<close> passes none) and the world.
\<close>

definition responseMiddleware ::
  "'q \<Rightarrow> addr \<Rightarrow> (json list \<Rightarrow> 'e world \<Rightarrow> 'e world) \<Rightarrow> 'e world \<Rightarrow> 'e world" where
  "responseMiddleware req resp next w =
     (let httpResponse = length (instances w);
          w0 = w\<lparr>instances := instances w @ [\<lparr>res = resp\<rparr>]\<rparr>;
          w1 = assign resp ''success'' (Arrow Success httpResponse) w0;
          w2 = assign resp ''created'' (Arrow Created httpResponse) w1;
          w3 = assign resp ''accepted'' (Arrow Accepted httpResponse) w2;
          w4 = assign resp ''noContent'' (Arrow NoContent httpResponse) w3;
          w5 = assign resp ''badRequest'' (Arrow BadRequest httpResponse) w4;
          w6 = assign resp ''unauthorized'' (Arrow Unauthorized httpResponse) w5;
          w7 = assign resp ''forbidden'' (Arrow Forbidden httpResponse) w6;
          w8 = assign resp ''notFound'' (Arrow NotFound httpResponse) w7;
          w9 = assign resp ''notAcceptable'' (Arrow NotAcceptable httpResponse) w8;
          w10 = assign resp ''conflict'' (Arrow Conflict httpResponse) w9;
          w11 = assign resp ''gone'' (Arrow Gone httpResponse) w10;
          w12 = assign resp ''unsupportedMediaType'' (Arrow UnsupportedMediaType httpResponse) w11;
          w13 = assign resp ''unprocessableEntity'' (Arrow UnprocessableEntity httpResponse) w12;
          w14 = assign resp ''tooManyRequests'' (Arrow TooManyRequests httpResponse) w13;
          w15 = assign resp ''error'' (Arrow Error httpResponse) w14;
          w16 = assign resp ''serverError'' (Arrow ServerError httpResponse) w15;
          w17 = assign resp ''notImplemented'' (Arrow NotImplemented httpResponse) w16;
          w18 = assign resp ''serviceUnavailable'' (Arrow ServiceUnavailable httpResponse) w17
      in next [] w18)"

text \<open>
  A handler's call \<^verbatim>\<open>res.k(options)\<close> at the instant \<open>now\<close>: the closure stored under
  \<open>k\<close> runs its method on the response object its instance refers to. A name that is
  not bound to a closure is a \<^verbatim>\<open>TypeError\<close> (\<open>None\<close>).
\<close>

definition call_prop ::
  "addr \<Rightarrow> string \<Rightarrow> string \<Rightarrow> ResponseOptions option \<Rightarrow> 'e world \<Rightarrow> 'e world option" where
  "call_prop a k now options w =
     (case props (objs w a) k of
        None \<Rightarrow> None
      | Some (Arrow h i) \<Rightarrow>
          if i < length (instances w)
          then (let r = res (instances w ! i)
                in Some (w\<lparr>objs := (objs w)(r := (objs w r)\<lparr>calls := helper_call h now options (calls (objs w r))\<rparr>)\<rparr>))
          else None)"

section \<open>The documented preset table\<close>

text \<open>
  The table of section 4.2 of the specification, row by row: category, default status
  code and default message of each helper. \<^verbatim>\<open>noContent\<close> has no category and no message.
  This is the documentation's side; the code's side is the definitions above.
\<close>

fun documented :: "Helper \<Rightarrow> (ResponseStatus \<times> int \<times> string) option" where
  "documented Success = Some (SUCCESS, 200, ''Success'')"
| "documented Created = Some (SUCCESS, 201, ''Resource created'')"
| "documented Accepted = Some (SUCCESS, 202, ''Accepted'')"
| "documented NoContent = None"
| "documented BadRequest = Some (ERROR, 400, ''Bad Request'')"
| "documented Unauthorized = Some (ERROR, 401, ''Unauthorized'')"
| "documented Forbidden = Some (ERROR, 403, ''Forbidden'')"
| "documented NotFound = Some (ERROR, 404, ''Not Found'')"
| "documented NotAcceptable = Some (ERROR, 406, ''Not Acceptable'')"
| "documented Conflict = Some (ERROR, 409, ''Conflict'')"
| "documented Gone = Some (ERROR, 410, ''Gone'')"
| "documented UnsupportedMediaType = Some (ERROR, 415, ''Unsupported Media Type'')"
| "documented UnprocessableEntity = Some (ERROR, 422, ''Unprocessable Entity'')"
| "documented TooManyRequests = Some (ERROR, 429, ''Too Many Requests'')"
| "documented Error = Some (ERROR, 500, ''Error'')"
| "documented ServerError = Some (ERROR, 500, ''Internal Server Error'')"
| "documented NotImplemented = Some (ERROR, 501, ''Not Implemented'')"
| "documented ServiceUnavailable = Some (ERROR, 503, ''Service Unavailable'')"

text \<open>The canonical names of the helpers, in the order the middleware binds them.\<close>

definition canonical :: "(string \<times> Helper) list" where
  "canonical =
     [(''success'', Success),
      (''created'', Created),
      (''accepted'', Accepted),
      (''noContent'', NoContent),
      (''badRequest'', BadRequest),
      (''unauthorized'', Unauthorized),
      (''forbidden'', Forbidden),
      (''notFound'', NotFound),
      (''notAcceptable'', NotAcceptable),
      (''conflict'', Conflict),
      (''gone'', Gone),
      (''unsupportedMediaType'', UnsupportedMediaType),
      (''unprocessableEntity'', UnprocessableEntity),
      (''tooManyRequests'', TooManyRequests),
      (''error'', Error),
      (''serverError'', ServerError),
      (''notImplemented'', NotImplemented),
      (''serviceUnavailable'', ServiceUnavailable)]"

section \<open>Reading a sink\<close>

text \<open>
  What a client of the sink observes in a log: the status codes set, the JSON bodies
  written, the headers set, and the value each body has under a key (\<open>None\<close> where the body has no such
  key).
\<close>

fun written_codes :: "sink \<Rightarrow> int list" where
  "written_codes [] = []"
| "written_codes (Status n # es) = n # written_codes es"
| "written_codes (e # es) = written_codes es"

fun written_bodies :: "sink \<Rightarrow> (string \<times> json) list list" where
  "written_bodies [] = []"
| "written_bodies (Json b # es) = b # written_bodies es"
| "written_bodies (e # es) = written_bodies es"

fun written_headers :: "sink \<Rightarrow> (string \<times> string) list" where
  "written_headers [] = []"
| "written_headers (SetHeader k v # es) = (k, v) # written_headers es"
| "written_headers (e # es) = written_headers es"

definition field_of :: "string \<Rightarrow> sink \<Rightarrow> json option list" where
  "field_of k s = map (\<lambda>b. map_of b k) (written_bodies s)"

text \<open>
  The envelope of section 3 of the specification: \<^verbatim>\<open>status\<close> and \<^verbatim>\<open>message\<close>, then each of
  \<^verbatim>\<open>data\<close>, \<^verbatim>\<open>errors\<close>, \<^verbatim>\<open>meta\<close> that is there, then \<^verbatim>\<open>timestamp\<close>.
\<close>

fun entry :: "string \<Rightarrow> json option \<Rightarrow> (string \<times> json) list" where
  "entry k None = []"
| "entry k (Some v) = [(k, v)]"

definition ResponseEnvelope ::
  "ResponseStatus \<Rightarrow> string \<Rightarrow> json option \<Rightarrow> json option \<Rightarrow> json option \<Rightarrow> string
     \<Rightarrow> (string \<times> json) list" where
  "ResponseEnvelope c m d e mt now =
     [(''status'', JStr (status_str c)), (''message'', JStr m)]
     @ entry ''data'' d @ entry ''errors'' e @ entry ''meta'' mt
     @ [(''timestamp'', JStr now)]"

text \<open>The \<^verbatim>\<open>setHeader\<close> calls for a header mapping, one per entry, in the order of the entries.\<close>

fun header_calls :: "(string \<times> string) list option \<Rightarrow> sink" where
  "header_calls None = []"
| "header_calls (Some hs) = map (\<lambda>(k, v). SetHeader k v) hs"

text \<open>
  What reaches the destructuring in \<^verbatim>\<open>send\<close> for a key that a helper presets: the preset
  when the caller's bag lacks the key, the category default when the bag holds
  \<^verbatim>\<open>undefined\<close> under it, the caller's value otherwise.
\<close>

fun pick :: "'a field \<Rightarrow> 'a \<Rightarrow> 'a \<Rightarrow> 'a" where
  "pick Absent preset dflt = preset"
| "pick Undef preset dflt = dflt"
| "pick (Value v) preset dflt = v"

text \<open>
  The world the continuation receives from the middleware: the middleware run with a
  continuation that returns its world as it is.
\<close>

definition attached :: "addr \<Rightarrow> 'e world \<Rightarrow> 'e world" where
  "attached resp w = responseMiddleware () resp (\<lambda>args v. v) w"

section \<open>What \<^verbatim>\<open>send\<close> and the helpers write\<close>

lemma set_headers_append: "set_headers hs s = s @ map (\<lambda>(k, v). SetHeader k v) hs"
  by (induction hs arbitrary: s) auto

lemma send_eq:
  "send now c options s =
     s @ header_calls (read_field (headers (default_arg options)))
       @ [Status (with_default (statusCode (default_arg options)) (if c = SUCCESS then 200 else 500)),
          Json (ResponseEnvelope c
                  (with_default (message (default_arg options))
                     (if c = SUCCESS then ''Success'' else ''Error''))
                  (read_field (data (default_arg options)))
                  (read_field (errors (default_arg options)))
                  (read_field (meta (default_arg options))) now)]"
  by (simp add: send_def Let_def ResponseEnvelope_def set_headers_append split: option.split)

lemma over_Absent: "over Absent x = x"
  by (cases x) simp_all

lemma with_default_over_Value: "with_default (over (Value p) x) d = pick x p d"
  by (cases x) simp_all

lemma over_over_Value: "over b (over (Value p) x) = over (Value p) x"
  by (cases x) simp_all

lemma pick_same_default: "pick x d d = with_default x d"
  by (cases x) simp_all

lemmas helper_defs = success_def created_def accepted_def noContent_def badRequest_def unauthorized_def forbidden_def notFound_def notAcceptable_def conflict_def gone_def unsupportedMediaType_def unprocessableEntity_def tooManyRequests_def error_def serverError_def notImplemented_def serviceUnavailable_def

lemma helper_call_eq:
  assumes "documented h = Some (c, code, msg)"
  shows "helper_call h now options s =
     s @ header_calls (read_field (headers (default_arg options)))
       @ [Status (pick (statusCode (default_arg options)) code (if c = SUCCESS then 200 else 500)),
          Json (ResponseEnvelope c
                  (pick (message (default_arg options)) msg
                     (if c = SUCCESS then ''Success'' else ''Error''))
                  (read_field (data (default_arg options)))
                  (read_field (errors (default_arg options)))
                  (read_field (meta (default_arg options))) now)]"
  using assms
  by (cases h)
     (simp_all add: helper_defs send_eq spread_def empty_options_def over_Absent
        with_default_over_Value over_over_Value pick_same_default)

lemma written_codes_append: "written_codes (s @ t) = written_codes s @ written_codes t"
  by (induction s rule: written_codes.induct) simp_all

lemma written_bodies_append: "written_bodies (s @ t) = written_bodies s @ written_bodies t"
  by (induction s rule: written_bodies.induct) simp_all

lemma written_codes_header_calls: "written_codes (header_calls hs) = []"
proof (cases hs)
  case None
  then show ?thesis by simp
next
  case (Some xs)
  have "written_codes (map (\<lambda>(k, v). SetHeader k v) xs) = []"
    by (induction xs) auto
  with Some show ?thesis by simp
qed

lemma written_bodies_header_calls: "written_bodies (header_calls hs) = []"
proof (cases hs)
  case None
  then show ?thesis by simp
next
  case (Some xs)
  have "written_bodies (map (\<lambda>(k, v). SetHeader k v) xs) = []"
    by (induction xs) auto
  with Some show ?thesis by simp
qed

lemma field_of_append: "field_of k (s @ t) = field_of k s @ field_of k t"
  by (simp add: field_of_def written_bodies_append)

lemma map_of_ResponseEnvelope:
  "map_of (ResponseEnvelope c m d e mt now) ''status'' = Some (JStr (status_str c))"
  "map_of (ResponseEnvelope c m d e mt now) ''message'' = Some (JStr m)"
  "map_of (ResponseEnvelope c m d e mt now) ''data'' = d"
  "map_of (ResponseEnvelope c m d e mt now) ''errors'' = e"
  "map_of (ResponseEnvelope c m d e mt now) ''meta'' = mt"
  "map_of (ResponseEnvelope c m d e mt now) ''timestamp'' = Some (JStr now)"
  by (cases d; cases e; cases mt; simp add: ResponseEnvelope_def)+

lemma written_headers_append: "written_headers (s @ t) = written_headers s @ written_headers t"
  by (induction s rule: written_headers.induct) simp_all

lemma written_headers_header_calls: "written_headers (header_calls (Some hs)) = hs"
  by (induction hs) auto

lemma field_of_Nil: "field_of k [] = []"
  by (simp add: field_of_def)

lemma field_of_emitted:
  "field_of k (s @ header_calls hs @ [Status n, Json b]) = field_of k s @ [map_of b k]"
  by (simp add: field_of_def written_bodies_append written_bodies_header_calls)

lemma written_codes_emitted:
  "written_codes (s @ header_calls hs @ [Status n, Json b]) = written_codes s @ [n]"
  by (simp add: written_codes_append written_codes_header_calls)

lemma written_bodies_emitted:
  "written_bodies (s @ header_calls hs @ [Status n, Json b]) = written_bodies s @ [b]"
  by (simp add: written_bodies_append written_bodies_header_calls)

section \<open>What the middleware does to the store\<close>

lemma assign_instances: "instances (assign a k f w) = instances w"
  by (simp add: assign_def)

lemma assign_env: "env (assign a k f w) = env w"
  by (simp add: assign_def)

lemma assign_calls: "calls (objs (assign a k f w) b) = calls (objs w b)"
  by (simp add: assign_def)

lemma assign_props:
  "props (objs (assign a k f w) b) k' =
     (if b = a \<and> k' = k then Some f else props (objs w b) k')"
  by (simp add: assign_def)

lemma assign_others: "b \<noteq> a \<Longrightarrow> objs (assign a k f w) b = objs w b"
  by (simp add: assign_def)

lemmas assign_simps = assign_instances assign_env assign_calls assign_props

lemma mw_next:
  "responseMiddleware req resp next w = next [] (responseMiddleware req' resp (\<lambda>args v. v) w)"
  by (simp add: responseMiddleware_def Let_def)

lemma mw_instances:
  "instances (responseMiddleware req resp (\<lambda>args v. v) w) = instances w @ [\<lparr>res = resp\<rparr>]"
  by (simp add: responseMiddleware_def Let_def assign_simps)

lemma mw_env: "env (responseMiddleware req resp (\<lambda>args v. v) w) = env w"
  by (simp add: responseMiddleware_def Let_def assign_simps)

lemma mw_calls:
  "calls (objs (responseMiddleware req resp (\<lambda>args v. v) w) a) = calls (objs w a)"
  by (simp add: responseMiddleware_def Let_def assign_simps)

lemma mw_others:
  "a \<noteq> resp \<Longrightarrow> objs (responseMiddleware req resp (\<lambda>args v. v) w) a = objs w a"
  by (simp add: responseMiddleware_def Let_def assign_others)

lemma mw_bound_each:
  "props (objs (responseMiddleware req resp (\<lambda>args v. v) w) resp) ''success''
     = Some (Arrow Success (length (instances w)))"
  "props (objs (responseMiddleware req resp (\<lambda>args v. v) w) resp) ''created''
     = Some (Arrow Created (length (instances w)))"
  "props (objs (responseMiddleware req resp (\<lambda>args v. v) w) resp) ''accepted''
     = Some (Arrow Accepted (length (instances w)))"
  "props (objs (responseMiddleware req resp (\<lambda>args v. v) w) resp) ''noContent''
     = Some (Arrow NoContent (length (instances w)))"
  "props (objs (responseMiddleware req resp (\<lambda>args v. v) w) resp) ''badRequest''
     = Some (Arrow BadRequest (length (instances w)))"
  "props (objs (responseMiddleware req resp (\<lambda>args v. v) w) resp) ''unauthorized''
     = Some (Arrow Unauthorized (length (instances w)))"
  "props (objs (responseMiddleware req resp (\<lambda>args v. v) w) resp) ''forbidden''
     = Some (Arrow Forbidden (length (instances w)))"
  "props (objs (responseMiddleware req resp (\<lambda>args v. v) w) resp) ''notFound''
     = Some (Arrow NotFound (length (instances w)))"
  "props (objs (responseMiddleware req resp (\<lambda>args v. v) w) resp) ''notAcceptable''
     = Some (Arrow NotAcceptable (length (instances w)))"
  "props (objs (responseMiddleware req resp (\<lambda>args v. v) w) resp) ''conflict''
     = Some (Arrow Conflict (length (instances w)))"
  "props (objs (responseMiddleware req resp (\<lambda>args v. v) w) resp) ''gone''
     = Some (Arrow Gone (length (instances w)))"
  "props (objs (responseMiddleware req resp (\<lambda>args v. v) w) resp) ''unsupportedMediaType''
     = Some (Arrow UnsupportedMediaType (length (instances w)))"
  "props (objs (responseMiddleware req resp (\<lambda>args v. v) w) resp) ''unprocessableEntity''
     = Some (Arrow UnprocessableEntity (length (instances w)))"
  "props (objs (responseMiddleware req resp (\<lambda>args v. v) w) resp) ''tooManyRequests''
     = Some (Arrow TooManyRequests (length (instances w)))"
  "props (objs (responseMiddleware req resp (\<lambda>args v. v) w) resp) ''error''
     = Some (Arrow Error (length (instances w)))"
  "props (objs (responseMiddleware req resp (\<lambda>args v. v) w) resp) ''serverError''
     = Some (Arrow ServerError (length (instances w)))"
  "props (objs (responseMiddleware req resp (\<lambda>args v. v) w) resp) ''notImplemented''
     = Some (Arrow NotImplemented (length (instances w)))"
  "props (objs (responseMiddleware req resp (\<lambda>args v. v) w) resp) ''serviceUnavailable''
     = Some (Arrow ServiceUnavailable (length (instances w)))"
  by (simp_all add: responseMiddleware_def Let_def assign_simps)

lemma mw_bound:
  assumes "(k, h) \<in> set canonical"
  shows "props (objs (responseMiddleware req resp (\<lambda>args v. v) w) resp) k
           = Some (Arrow h (length (instances w)))"
proof -
  from assms have "(k, h) \<in> set canonical" .
  then show ?thesis
    unfolding canonical_def set_simps insert_iff empty_iff prod.inject
    by (elim disjE conjE) (simp_all only: mw_bound_each)
qed

lemma mw_unbound:
  assumes "k \<notin> fst ` set canonical"
  shows "props (objs (responseMiddleware req resp (\<lambda>args v. v) w) a) k = props (objs w a) k"
proof -
  from assms have ne: "k \<noteq> ''success''" "k \<noteq> ''created''" "k \<noteq> ''accepted''"
    "k \<noteq> ''noContent''" "k \<noteq> ''badRequest''" "k \<noteq> ''unauthorized''" "k \<noteq> ''forbidden''"
    "k \<noteq> ''notFound''" "k \<noteq> ''notAcceptable''" "k \<noteq> ''conflict''" "k \<noteq> ''gone''"
    "k \<noteq> ''unsupportedMediaType''" "k \<noteq> ''unprocessableEntity''" "k \<noteq> ''tooManyRequests''"
    "k \<noteq> ''error''" "k \<noteq> ''serverError''" "k \<noteq> ''notImplemented''"
    "k \<noteq> ''serviceUnavailable''"
    unfolding canonical_def by force+
  show ?thesis
    by (simp add: responseMiddleware_def Let_def assign_simps ne)
qed

lemma canonical_length: "length canonical = 18"
  by (simp add: canonical_def)

lemma canonical_distinct: "distinct (map fst canonical)"
  by (simp add: canonical_def)

lemma canonical_complete: "snd ` set canonical = UNIV"
proof -
  have "h \<in> snd ` set canonical" for h
    by (cases h) (simp_all add: canonical_def)
  then show ?thesis by blast
qed

lemma mw_call:
  assumes "(k, h) \<in> set canonical"
  shows "call_prop resp k now options (attached resp w) =
           Some ((attached resp w)\<lparr>objs := (objs (attached resp w))
                   (resp := (objs (attached resp w) resp)
                      \<lparr>calls := helper_call h now options (calls (objs w resp))\<rparr>)\<rparr>)"
  by (simp add: call_prop_def attached_def mw_bound [OF assms] mw_instances mw_calls)

lemma mw_again:
  assumes "(k, h) \<in> set canonical"
  shows "props (objs (attached resp' (attached resp w)) resp') k
           = Some (Arrow h (Suc (length (instances w))))"
    and "resp' \<noteq> resp \<Longrightarrow>
         props (objs (attached resp' (attached resp w)) resp) k
           = Some (Arrow h (length (instances w)))"
    and "instances (attached resp' (attached resp w))
           = instances w @ [\<lparr>res = resp\<rparr>, \<lparr>res = resp'\<rparr>]"
  by (simp_all add: attached_def mw_bound [OF assms] mw_instances mw_others)

section \<open>The claims\<close>

subsection \<open>Helpers called with no options\<close>

text \<open>
  Claim C1. Every named helper of the preset table that writes an envelope, called with
  no options (no argument at all, or the empty object), sets the documented default
  status code of its row and writes an envelope whose \<^verbatim>\<open>status\<close> is the documented category
  and whose \<^verbatim>\<open>message\<close> is the documented default message; the envelope has these two
  fields and the timestamp, and nothing else is done to the sink.
\<close>

theorem helper_no_options_defaults:
  assumes "documented h = Some (c, code, msg)"
  shows "helper_call h now None s =
           s @ [Status code,
                Json [(''status'', JStr (status_str c)), (''message'', JStr msg),
                      (''timestamp'', JStr now)]]
       \<and> helper_call h now (Some empty_options) s = helper_call h now None s"
  by (simp add: helper_call_eq [OF assms] empty_options_def ResponseEnvelope_def)

theorem helper_no_options_defaults_witness:
  "documented Success = Some (SUCCESS, 200, ''Success'')
   \<and> success ''2026-01-01T00:00:00.000Z'' None [] =
       [Status 200,
        Json [(''status'', JStr ''success''), (''message'', JStr ''Success''),
              (''timestamp'', JStr ''2026-01-01T00:00:00.000Z'')]]
   \<and> documented Created = Some (SUCCESS, 201, ''Resource created'')
   \<and> created ''2026-01-01T00:00:00.000Z'' None [] =
       [Status 201,
        Json [(''status'', JStr ''success''), (''message'', JStr ''Resource created''),
              (''timestamp'', JStr ''2026-01-01T00:00:00.000Z'')]]
   \<and> documented NotFound = Some (ERROR, 404, ''Not Found'')
   \<and> notFound ''2026-01-01T00:00:00.000Z'' None [] =
       [Status 404,
        Json [(''status'', JStr ''error''), (''message'', JStr ''Not Found''),
              (''timestamp'', JStr ''2026-01-01T00:00:00.000Z'')]]
   \<and> documented ServerError = Some (ERROR, 500, ''Internal Server Error'')
   \<and> serverError ''2026-01-01T00:00:00.000Z'' None [] =
       [Status 500,
        Json [(''status'', JStr ''error''), (''message'', JStr ''Internal Server Error''),
              (''timestamp'', JStr ''2026-01-01T00:00:00.000Z'')]]"
proof -
  have d1: "documented Success = Some (SUCCESS, 200, ''Success'')"
    and d2: "documented Created = Some (SUCCESS, 201, ''Resource created'')"
    and d3: "documented NotFound = Some (ERROR, 404, ''Not Found'')"
    and d4: "documented ServerError = Some (ERROR, 500, ''Internal Server Error'')"
    by simp_all
  show ?thesis
    using helper_no_options_defaults [OF d1, where now = "''2026-01-01T00:00:00.000Z''" and s = "[]"]
      helper_no_options_defaults [OF d2, where now = "''2026-01-01T00:00:00.000Z''" and s = "[]"]
      helper_no_options_defaults [OF d3, where now = "''2026-01-01T00:00:00.000Z''" and s = "[]"]
      helper_no_options_defaults [OF d4, where now = "''2026-01-01T00:00:00.000Z''" and s = "[]"]
    by simp
qed

subsection \<open>Caller-supplied message and status code\<close>

text \<open>
  Claim C2. For every named helper that writes an envelope and every options bag: a
  \<^verbatim>\<open>message\<close> the caller supplies is the message of the envelope, a \<^verbatim>\<open>statusCode\<close> the
  caller supplies is the status code set on the sink, each in place of the helper's
  preset; and whatever the bag holds, the envelope's \<^verbatim>\<open>status\<close> is the helper's category.
\<close>

theorem helper_caller_overrides:
  assumes "documented h = Some (c, code, msg)"
  shows "(message (default_arg options) = Value m \<longrightarrow>
            field_of ''message'' (helper_call h now options s)
              = field_of ''message'' s @ [Some (JStr m)])
       \<and> (statusCode (default_arg options) = Value n \<longrightarrow>
            written_codes (helper_call h now options s) = written_codes s @ [n])
       \<and> field_of ''status'' (helper_call h now options s)
            = field_of ''status'' s @ [Some (JStr (status_str c))]"
  by (simp add: helper_call_eq [OF assms] field_of_emitted written_codes_emitted
        map_of_ResponseEnvelope)

theorem helper_caller_overrides_witness:
  "documented Created = Some (SUCCESS, 201, ''Resource created'')
   \<and> message (default_arg (Some (empty_options\<lparr>message := Value ''User created'',
                                                statusCode := Value 299\<rparr>))) = Value ''User created''
   \<and> statusCode (default_arg (Some (empty_options\<lparr>message := Value ''User created'',
                                                   statusCode := Value 299\<rparr>))) = Value 299
   \<and> field_of ''message''
        (created ''2026-01-01T00:00:00.000Z''
           (Some (empty_options\<lparr>message := Value ''User created'', statusCode := Value 299\<rparr>)) [])
        = [Some (JStr ''User created'')]
   \<and> written_codes
        (created ''2026-01-01T00:00:00.000Z''
           (Some (empty_options\<lparr>message := Value ''User created'', statusCode := Value 299\<rparr>)) [])
        = [299]
   \<and> field_of ''status''
        (created ''2026-01-01T00:00:00.000Z''
           (Some (empty_options\<lparr>message := Value ''User created'', statusCode := Value 299\<rparr>)) [])
        = [Some (JStr ''success'')]"
proof -
  have d: "documented Created = Some (SUCCESS, 201, ''Resource created'')" by simp
  show ?thesis
    using helper_caller_overrides [OF d,
        where options = "Some (empty_options\<lparr>message := Value ''User created'',
                                               statusCode := Value 299\<rparr>)"
          and m = "''User created''" and now = "''2026-01-01T00:00:00.000Z''" and s = "[]"
          and n = 299]
    by (simp add: field_of_Nil)
qed

subsection \<open>The fields of the envelope\<close>

text \<open>
  Claim C3. For every call of \<^verbatim>\<open>send\<close>, direct or through a helper, the envelope is
  \<^verbatim>\<open>status\<close>, \<^verbatim>\<open>message\<close>, then each of \<^verbatim>\<open>data\<close>, \<^verbatim>\<open>errors\<close>, \<^verbatim>\<open>meta\<close> that the caller supplied
  with a value other than \<^verbatim>\<open>undefined\<close>, holding exactly that value (also \<^verbatim>\<open>0\<close>, the empty
  string, \<^verbatim>\<open>false\<close>, \<^verbatim>\<open>{}\<close>), then \<^verbatim>\<open>timestamp\<close>; a field that was not supplied is not a key
  of the envelope.
\<close>

theorem envelope_fields_as_supplied:
  "written_bodies (send now c options s) =
     written_bodies s @
       [ResponseEnvelope c
          (with_default (message (default_arg options))
             (case c of SUCCESS \<Rightarrow> ''Success'' | ERROR \<Rightarrow> ''Error''))
          (read_field (data (default_arg options)))
          (read_field (errors (default_arg options)))
          (read_field (meta (default_arg options))) now]
   \<and> field_of ''data'' (send now c options s)
        = field_of ''data'' s @ [read_field (data (default_arg options))]
   \<and> field_of ''errors'' (send now c options s)
        = field_of ''errors'' s @ [read_field (errors (default_arg options))]
   \<and> field_of ''meta'' (send now c options s)
        = field_of ''meta'' s @ [read_field (meta (default_arg options))]
   \<and> (documented h = Some (c', code, msg) \<longrightarrow>
        written_bodies (helper_call h now options s) =
          written_bodies s @
            [ResponseEnvelope c'
               (pick (message (default_arg options)) msg
                  (case c' of SUCCESS \<Rightarrow> ''Success'' | ERROR \<Rightarrow> ''Error''))
               (read_field (data (default_arg options)))
               (read_field (errors (default_arg options)))
               (read_field (meta (default_arg options))) now])"
proof -
  have "documented h = Some (c', code, msg) \<Longrightarrow>
        written_bodies (helper_call h now options s) =
          written_bodies s @
            [ResponseEnvelope c'
               (pick (message (default_arg options)) msg
                  (case c' of SUCCESS \<Rightarrow> ''Success'' | ERROR \<Rightarrow> ''Error''))
               (read_field (data (default_arg options)))
               (read_field (errors (default_arg options)))
               (read_field (meta (default_arg options))) now]"
    by (cases c') (simp_all add: helper_call_eq written_bodies_emitted)
  then show ?thesis
    by (cases c) (simp_all add: send_eq written_bodies_emitted field_of_emitted
        map_of_ResponseEnvelope)
qed

theorem envelope_fields_as_supplied_witness:
  "written_bodies
     (send ''2026-01-01T00:00:00.000Z'' SUCCESS
        (Some (empty_options\<lparr>data := Value (JNum 0), errors := Value (JStr ''''),
                              meta := Value (JObj [])\<rparr>)) [])
     = [[(''status'', JStr ''success''), (''message'', JStr ''Success''), (''data'', JNum 0),
         (''errors'', JStr ''''), (''meta'', JObj []),
         (''timestamp'', JStr ''2026-01-01T00:00:00.000Z'')]]
   \<and> documented Success = Some (SUCCESS, 200, ''Success'')
   \<and> written_bodies
       (success ''2026-01-01T00:00:00.000Z''
          (Some (empty_options\<lparr>data := Value (JBool False), meta := Undef\<rparr>)) [])
       = [[(''status'', JStr ''success''), (''message'', JStr ''Success''),
           (''data'', JBool False), (''timestamp'', JStr ''2026-01-01T00:00:00.000Z'')]]
   \<and> documented NotFound = Some (ERROR, 404, ''Not Found'')
   \<and> written_bodies (notFound ''2026-01-01T00:00:00.000Z'' None [])
       = [[(''status'', JStr ''error''), (''message'', JStr ''Not Found''),
           (''timestamp'', JStr ''2026-01-01T00:00:00.000Z'')]]"
  using envelope_fields_as_supplied
      [where now = "''2026-01-01T00:00:00.000Z''" and c = SUCCESS
         and options = "Some (empty_options\<lparr>data := Value (JNum 0), errors := Value (JStr ''''),
                                meta := Value (JObj [])\<rparr>)"
         and s = "[]" and h = Success and c' = SUCCESS and code = 200 and msg = "''Success''"]
    envelope_fields_as_supplied
      [where now = "''2026-01-01T00:00:00.000Z''" and c = SUCCESS
         and options = "Some (empty_options\<lparr>data := Value (JBool False), meta := Undef\<rparr>)"
         and s = "[]" and h = Success and c' = SUCCESS and code = 200 and msg = "''Success''"]
    envelope_fields_as_supplied
      [where now = "''2026-01-01T00:00:00.000Z''" and c = ERROR and options = None
         and s = "[]" and h = NotFound and c' = ERROR and code = 404 and msg = "''Not Found''"]
  by (simp add: empty_options_def ResponseEnvelope_def)

subsection \<open>The defaults of a direct \<^verbatim>\<open>send\<close>\<close>

text \<open>
  Claim C4. For every direct call \<^verbatim>\<open>send(category, options)\<close>: when \<^verbatim>\<open>options.statusCode\<close>
  is absent (the key is missing or holds \<^verbatim>\<open>undefined\<close>) the status code set is 200 for
  category success and 500 for category error; when \<^verbatim>\<open>options.message\<close> is absent the
  message of the envelope is \<^verbatim>\<open>Success\<close>, respectively \<^verbatim>\<open>Error\<close>; and a status code that is
  supplied is set as it is, for either category.
\<close>

theorem send_category_defaults:
  "(read_field (statusCode (default_arg options)) = None \<longrightarrow>
      written_codes (send now c options s)
        = written_codes s @ [case c of SUCCESS \<Rightarrow> 200 | ERROR \<Rightarrow> 500])
   \<and> (read_field (message (default_arg options)) = None \<longrightarrow>
        field_of ''message'' (send now c options s)
          = field_of ''message'' s
            @ [Some (JStr (case c of SUCCESS \<Rightarrow> ''Success'' | ERROR \<Rightarrow> ''Error''))])
   \<and> (statusCode (default_arg options) = Value n \<longrightarrow>
        written_codes (send now c options s) = written_codes s @ [n])"
proof -
  have a: "read_field x = None \<Longrightarrow> with_default x d = d" for x :: "'a field" and d
    by (cases x) simp_all
  show ?thesis
    by (cases c) (simp_all add: send_eq field_of_emitted written_codes_emitted
        map_of_ResponseEnvelope a)
qed

theorem send_category_defaults_witness:
  "read_field (statusCode (default_arg None)) = None
   \<and> read_field (message (default_arg None)) = None
   \<and> written_codes (send ''2026-01-01T00:00:00.000Z'' SUCCESS None []) = [200]
   \<and> field_of ''message'' (send ''2026-01-01T00:00:00.000Z'' SUCCESS None [])
       = [Some (JStr ''Success'')]
   \<and> written_codes (send ''2026-01-01T00:00:00.000Z'' ERROR None []) = [500]
   \<and> field_of ''message'' (send ''2026-01-01T00:00:00.000Z'' ERROR None [])
       = [Some (JStr ''Error'')]
   \<and> statusCode (default_arg (Some (empty_options\<lparr>statusCode := Value 404\<rparr>))) = Value 404
   \<and> written_codes
       (send ''2026-01-01T00:00:00.000Z'' SUCCESS
          (Some (empty_options\<lparr>statusCode := Value 404\<rparr>)) []) = [404]"
  using send_category_defaults
      [where options = None and now = "''2026-01-01T00:00:00.000Z''" and c = SUCCESS
         and s = "[]" and n = 0]
    send_category_defaults
      [where options = None and now = "''2026-01-01T00:00:00.000Z''" and c = ERROR
         and s = "[]" and n = 0]
    send_category_defaults
      [where options = "Some (empty_options\<lparr>statusCode := Value 404\<rparr>)"
         and now = "''2026-01-01T00:00:00.000Z''" and c = SUCCESS and s = "[]" and n = 404]
  by (simp add: empty_options_def field_of_Nil)

subsection \<open>\<^verbatim>\<open>noContent\<close>\<close>

text \<open>
  Claim C5. Every call of \<^verbatim>\<open>noContent\<close> sets status code 204 and ends the response with
  \<^verbatim>\<open>send()\<close>, an empty body: it writes no JSON envelope and sets no header, whatever
  arguments the caller passes, also when it is called through the name the middleware
  binds. It does not go through \<^verbatim>\<open>send\<close>: what it leaves in the sink is what no call of
  the formatter's \<^verbatim>\<open>send\<close> leaves there.
\<close>

theorem noContent_writes_204_only:
  "noContent args s = s @ [Status 204, Send]
   \<and> noContent args s = noContent args' s
   \<and> helper_call NoContent now options s = s @ [Status 204, Send]
   \<and> written_bodies (noContent args s) = written_bodies s
   \<and> written_headers (noContent args s) = written_headers s
   \<and> written_codes (noContent args s) = written_codes s @ [204]
   \<and> noContent args s \<noteq> send now c options s"
  by (simp add: noContent_def send_eq written_bodies_append written_headers_append
        written_codes_append)

subsection \<open>The middleware\<close>

text \<open>
  Claim C6. For every request, response object and continuation, the middleware creates
  exactly one new \<^verbatim>\<open>HttpResponse\<close> instance, whose \<^verbatim>\<open>res\<close> is that response object; it binds
  each of the 18 helpers on the response object under its canonical name, to a closure
  over that one instance; it then calls the continuation once, with no arguments, on the
  world so obtained, and returns what the continuation returns. It makes no call on the
  response object (its log is unchanged), leaves its other properties, every other
  object and the rest of the program's state as they were. Calling a bound name runs
  that helper on this response object. A second invocation creates a second instance
  and binds closures over that one: no closure is bound by both, and the bindings of
  another response object stay with their own instance.
\<close>

theorem responseMiddleware_attaches:
  assumes "(k, h) \<in> set canonical"
  shows "responseMiddleware req resp next w = next [] (attached resp w)
       \<and> instances (attached resp w) = instances w @ [\<lparr>res = resp\<rparr>]
       \<and> props (objs (attached resp w) resp) k = Some (Arrow h (length (instances w)))
       \<and> length canonical = 18 \<and> distinct (map fst canonical) \<and> snd ` set canonical = UNIV
       \<and> call_prop resp k now options (attached resp w) =
           Some ((attached resp w)\<lparr>objs := (objs (attached resp w))
                   (resp := (objs (attached resp w) resp)
                      \<lparr>calls := helper_call h now options (calls (objs w resp))\<rparr>)\<rparr>)
       \<and> calls (objs (attached resp w) resp) = calls (objs w resp)
       \<and> (k' \<notin> fst ` set canonical \<longrightarrow>
            props (objs (attached resp w) resp) k' = props (objs w resp) k')
       \<and> (a \<noteq> resp \<longrightarrow> objs (attached resp w) a = objs w a)
       \<and> env (attached resp w) = env w
       \<and> instances (attached resp' (attached resp w))
            = instances w @ [\<lparr>res = resp\<rparr>, \<lparr>res = resp'\<rparr>]
       \<and> props (objs (attached resp' (attached resp w)) resp') k
            = Some (Arrow h (Suc (length (instances w))))
       \<and> (resp' \<noteq> resp \<longrightarrow>
            props (objs (attached resp' (attached resp w)) resp) k
              = Some (Arrow h (length (instances w))))"
proof -
  have c1: "responseMiddleware req resp next w = next [] (attached resp w)"
    unfolding attached_def by (rule mw_next)
  have c2: "instances (attached resp w) = instances w @ [\<lparr>res = resp\<rparr>]"
    by (simp add: attached_def mw_instances)
  have c3: "props (objs (attached resp w) resp) k = Some (Arrow h (length (instances w)))"
    by (simp add: attached_def mw_bound [OF assms])
  have c4: "calls (objs (attached resp w) resp) = calls (objs w resp)"
    by (simp add: attached_def mw_calls)
  have c5: "k' \<notin> fst ` set canonical \<longrightarrow>
      props (objs (attached resp w) resp) k' = props (objs w resp) k'"
    by (simp add: attached_def mw_unbound)
  have c6: "a \<noteq> resp \<longrightarrow> objs (attached resp w) a = objs w a"
    by (simp add: attached_def mw_others)
  have c7: "env (attached resp w) = env w"
    by (simp add: attached_def mw_env)
  have c8: "resp' \<noteq> resp \<longrightarrow>
      props (objs (attached resp' (attached resp w)) resp) k
        = Some (Arrow h (length (instances w)))"
    using mw_again(2) [OF assms] by blast
  note parts = c1 c2 c3 canonical_length canonical_distinct canonical_complete
    mw_call [OF assms] c4 c5 c6 c7 mw_again(3) [OF assms] mw_again(1) [OF assms] c8
  show ?thesis
    by (intro conjI) (rule parts)+
qed

theorem responseMiddleware_attaches_witness:
  "(''notFound'', NotFound) \<in> set canonical
   \<and> ''json'' \<notin> fst ` set canonical
   \<and> env (responseMiddleware () 0 (\<lambda>args v. v\<lparr>env := env v @ [args]\<rparr>)
            \<lparr>objs = (\<lambda>a. \<lparr>calls = [], props = Map.empty\<rparr>), instances = [], env = []\<rparr>)
       = [[]]
   \<and> instances (responseMiddleware () 0 (\<lambda>args v. v\<lparr>env := env v @ [args]\<rparr>)
            \<lparr>objs = (\<lambda>a. \<lparr>calls = [], props = Map.empty\<rparr>), instances = [], env = []\<rparr>)
       = [\<lparr>res = 0\<rparr>]
   \<and> props (objs (responseMiddleware () 0 (\<lambda>args v. v\<lparr>env := env v @ [args]\<rparr>)
            \<lparr>objs = (\<lambda>a. \<lparr>calls = [], props = Map.empty\<rparr>), instances = [], env = []\<rparr>) 0)
         ''notFound''
       = Some (Arrow NotFound 0)
   \<and> props (objs (responseMiddleware () 0 (\<lambda>args v. v\<lparr>env := env v @ [args]\<rparr>)
            \<lparr>objs = (\<lambda>a. \<lparr>calls = [], props = Map.empty\<rparr>), instances = [], env = []\<rparr>) 0)
         ''json''
       = None
   \<and> calls (objs (responseMiddleware () 0 (\<lambda>args v. v\<lparr>env := env v @ [args]\<rparr>)
            \<lparr>objs = (\<lambda>a. \<lparr>calls = [], props = Map.empty\<rparr>), instances = [], env = []\<rparr>) 0)
       = []
   \<and> objs (responseMiddleware () 0 (\<lambda>args v. v\<lparr>env := env v @ [args]\<rparr>)
            \<lparr>objs = (\<lambda>a. \<lparr>calls = [], props = Map.empty\<rparr>), instances = [], env = []\<rparr>) 1
       = \<lparr>calls = [], props = Map.empty\<rparr>
   \<and> map_option (\<lambda>v. (calls (objs v 0), calls (objs v 1)))
        (call_prop 0 ''notFound'' ''2026-01-01T00:00:00.000Z'' None
           (attached 0
              \<lparr>objs = (\<lambda>a. \<lparr>calls = [], props = Map.empty\<rparr>), instances = [],
                env = ([] :: json list list)\<rparr>))
       = Some ([Status 404,
                Json [(''status'', JStr ''error''), (''message'', JStr ''Not Found''),
                      (''timestamp'', JStr ''2026-01-01T00:00:00.000Z'')]], [])
   \<and> props (objs (attached 1 (attached 0
              \<lparr>objs = (\<lambda>a. \<lparr>calls = [], props = Map.empty\<rparr>), instances = [],
                env = ([] :: json list list)\<rparr>)) 1) ''notFound''
       = Some (Arrow NotFound 1)
   \<and> props (objs (attached 1 (attached 0
              \<lparr>objs = (\<lambda>a. \<lparr>calls = [], props = Map.empty\<rparr>), instances = [],
                env = ([] :: json list list)\<rparr>)) 0) ''notFound''
       = Some (Arrow NotFound 0)"
proof -
  have m: "(''notFound'', NotFound) \<in> set canonical"
    by (simp add: canonical_def)
  have j: "''json'' \<notin> fst ` set canonical"
    by (simp add: canonical_def)
  show ?thesis
    using m j responseMiddleware_attaches [OF m,
        where req = "()" and resp = 0 and resp' = 1 and a = 1 and k' = "''json''"
          and now = "''2026-01-01T00:00:00.000Z''" and options = None
          and ?next = "\<lambda>args v. v\<lparr>env := env v @ [args]\<rparr>"
          and w = "\<lparr>objs = (\<lambda>a. \<lparr>calls = [], props = Map.empty\<rparr>), instances = [],
                    env = ([] :: json list list)\<rparr>"]
    by (simp add: notFound_def error_def send_def spread_def empty_options_def Let_def)
qed

subsection \<open>Headers\<close>

text \<open>
  Claim C7. For every call of \<^verbatim>\<open>send\<close> with a header mapping, what the call does to the
  sink is: one \<^verbatim>\<open>setHeader\<close> for each entry of the mapping, in the order of the entries,
  and after all of them the one \<^verbatim>\<open>status\<close> call followed by the one \<^verbatim>\<open>json\<close> call that ends
  the response. The same holds when the mapping reaches \<^verbatim>\<open>send\<close> through a helper.
\<close>

theorem send_headers_before_write:
  assumes "headers (default_arg options) = Value hs"
  shows "send now c options s =
           s @ map (\<lambda>(k, v). SetHeader k v) hs
             @ [Status (with_default (statusCode (default_arg options))
                          (case c of SUCCESS \<Rightarrow> 200 | ERROR \<Rightarrow> 500)),
                Json (ResponseEnvelope c
                        (with_default (message (default_arg options))
                           (case c of SUCCESS \<Rightarrow> ''Success'' | ERROR \<Rightarrow> ''Error''))
                        (read_field (data (default_arg options)))
                        (read_field (errors (default_arg options)))
                        (read_field (meta (default_arg options))) now)]
       \<and> written_headers (send now c options s) = written_headers s @ hs
       \<and> (documented h = Some (c', code, msg) \<longrightarrow>
            helper_call h now options s =
              s @ map (\<lambda>(k, v). SetHeader k v) hs
                @ [Status (pick (statusCode (default_arg options)) code
                             (case c' of SUCCESS \<Rightarrow> 200 | ERROR \<Rightarrow> 500)),
                   Json (ResponseEnvelope c'
                           (pick (message (default_arg options)) msg
                              (case c' of SUCCESS \<Rightarrow> ''Success'' | ERROR \<Rightarrow> ''Error''))
                           (read_field (data (default_arg options)))
                           (read_field (errors (default_arg options)))
                           (read_field (meta (default_arg options))) now)])"
  using assms
  by (cases c; cases c') (simp_all add: send_eq helper_call_eq written_headers_append
      written_headers_header_calls [simplified])

theorem send_headers_before_write_witness:
  "headers (default_arg (Some (empty_options\<lparr>headers :=
       Value [(''X-Custom-Header'', ''CustomValue''), (''Retry-After'', ''30'')]\<rparr>)))
     = Value [(''X-Custom-Header'', ''CustomValue''), (''Retry-After'', ''30'')]
   \<and> send ''2026-01-01T00:00:00.000Z'' ERROR
       (Some (empty_options\<lparr>headers :=
          Value [(''X-Custom-Header'', ''CustomValue''), (''Retry-After'', ''30'')]\<rparr>)) []
     = [SetHeader ''X-Custom-Header'' ''CustomValue'', SetHeader ''Retry-After'' ''30'',
        Status 500,
        Json [(''status'', JStr ''error''), (''message'', JStr ''Error''),
              (''timestamp'', JStr ''2026-01-01T00:00:00.000Z'')]]
   \<and> documented TooManyRequests = Some (ERROR, 429, ''Too Many Requests'')
   \<and> tooManyRequests ''2026-01-01T00:00:00.000Z''
       (Some (empty_options\<lparr>headers :=
          Value [(''X-Custom-Header'', ''CustomValue''), (''Retry-After'', ''30'')]\<rparr>)) []
     = [SetHeader ''X-Custom-Header'' ''CustomValue'', SetHeader ''Retry-After'' ''30'',
        Status 429,
        Json [(''status'', JStr ''error''), (''message'', JStr ''Too Many Requests''),
              (''timestamp'', JStr ''2026-01-01T00:00:00.000Z'')]]"
  using send_headers_before_write
      [where options = "Some (empty_options\<lparr>headers :=
          Value [(''X-Custom-Header'', ''CustomValue''), (''Retry-After'', ''30'')]\<rparr>)"
         and hs = "[(''X-Custom-Header'', ''CustomValue''), (''Retry-After'', ''30'')]"
         and now = "''2026-01-01T00:00:00.000Z''" and c = ERROR and s = "[]"
         and h = TooManyRequests and c' = ERROR and code = 429 and msg = "''Too Many Requests''"]
  by (simp add: empty_options_def ResponseEnvelope_def)

subsection \<open>Error helpers and \<^verbatim>\<open>data\<close>\<close>

text \<open>
  Claim C8 says that the options bag of an error helper has no \<^verbatim>\<open>data\<close> and that no call of
  an error helper writes an envelope with a \<^verbatim>\<open>data\<close> field. \<^verbatim>\<open>ErrorResponseOptions\<close> extends
  \<^verbatim>\<open>ResponseOptions\<close> and so has \<^verbatim>\<open>data\<close>; \<^verbatim>\<open>badRequest({ data: 0 })\<close> writes an envelope
  whose \<^verbatim>\<open>data\<close> is \<^verbatim>\<open>0\<close>.
\<close>

theorem error_helper_data_counterexample:
  "badRequest ''2026-01-01T00:00:00.000Z'' (Some (empty_options\<lparr>data := Value (JNum 0)\<rparr>)) [] =
     [Status 400,
      Json [(''status'', JStr ''error''), (''message'', JStr ''Bad Request''),
            (''data'', JNum 0), (''timestamp'', JStr ''2026-01-01T00:00:00.000Z'')]]"
  by (simp add: badRequest_def error_def send_def spread_def empty_options_def Let_def)

text \<open>
  Claim C8, amended. No error helper presets, adds or removes \<^verbatim>\<open>data\<close>: the envelope of an
  error helper has a \<^verbatim>\<open>data\<close> field exactly when the caller's options bag holds \<^verbatim>\<open>data\<close> with
  a value other than \<^verbatim>\<open>undefined\<close>, and then with that value. A call whose bag has no
  \<^verbatim>\<open>data\<close> writes an envelope without a \<^verbatim>\<open>data\<close> field.
\<close>

theorem error_helper_data_passthrough:
  assumes "documented h = Some (ERROR, code, msg)"
  shows "field_of ''data'' (helper_call h now options s)
           = field_of ''data'' s @ [read_field (data (default_arg options))]"
  by (simp add: helper_call_eq [OF assms] field_of_emitted map_of_ResponseEnvelope)

theorem error_helper_data_passthrough_witness:
  "documented BadRequest = Some (ERROR, 400, ''Bad Request'')
   \<and> field_of ''data''
       (badRequest ''2026-01-01T00:00:00.000Z''
          (Some (empty_options\<lparr>message := Value ''Invalid input provided'',
                                errors := Value (JObj [(''email'', JStr ''Email is required'')])\<rparr>))
          [])
       = [None]
   \<and> field_of ''data''
       (badRequest ''2026-01-01T00:00:00.000Z''
          (Some (empty_options\<lparr>data := Value (JNum 0)\<rparr>)) [])
       = [Some (JNum 0)]"
proof -
  have d: "documented BadRequest = Some (ERROR, 400, ''Bad Request'')" by simp
  show ?thesis
    using error_helper_data_passthrough [OF d,
        where now = "''2026-01-01T00:00:00.000Z''" and s = "[]"
          and options = "Some (empty_options\<lparr>message := Value ''Invalid input provided'',
                errors := Value (JObj [(''email'', JStr ''Email is required'')])\<rparr>)"]
      error_helper_data_passthrough [OF d,
        where now = "''2026-01-01T00:00:00.000Z''" and s = "[]"
          and options = "Some (empty_options\<lparr>data := Value (JNum 0)\<rparr>)"]
    by (simp add: empty_options_def field_of_Nil)
qed

subsection \<open>A key that holds \<^verbatim>\<open>undefined\<close>\<close>

text \<open>
  Claim C9. For every named helper that writes an envelope: an options bag that holds
  \<^verbatim>\<open>undefined\<close> under \<^verbatim>\<open>message\<close> replaces the helper's preset message in the spread, and
  \<^verbatim>\<open>send\<close> then takes the default of the category (\<^verbatim>\<open>Success\<close> or \<^verbatim>\<open>Error\<close>); a bag that holds
  \<^verbatim>\<open>undefined\<close> under \<^verbatim>\<open>statusCode\<close> likewise ends at the category's 200 or 500. So
  \<^verbatim>\<open>notFound\<close> then writes \<^verbatim>\<open>Error\<close>, not \<^verbatim>\<open>Not Found\<close>, and 500, not 404.
\<close>

theorem helper_explicit_undefined:
  assumes "documented h = Some (c, code, msg)"
  shows "(message (default_arg options) = Undef \<longrightarrow>
            field_of ''message'' (helper_call h now options s)
              = field_of ''message'' s
                @ [Some (JStr (case c of SUCCESS \<Rightarrow> ''Success'' | ERROR \<Rightarrow> ''Error''))])
       \<and> (statusCode (default_arg options) = Undef \<longrightarrow>
            written_codes (helper_call h now options s)
              = written_codes s @ [case c of SUCCESS \<Rightarrow> 200 | ERROR \<Rightarrow> 500])"
  by (cases c) (simp_all add: helper_call_eq [OF assms] field_of_emitted written_codes_emitted
        map_of_ResponseEnvelope)

theorem helper_explicit_undefined_witness:
  "documented NotFound = Some (ERROR, 404, ''Not Found'')
   \<and> message (default_arg (Some (empty_options\<lparr>message := Undef, statusCode := Undef\<rparr>))) = Undef
   \<and> statusCode (default_arg (Some (empty_options\<lparr>message := Undef, statusCode := Undef\<rparr>)))
       = Undef
   \<and> notFound ''2026-01-01T00:00:00.000Z''
       (Some (empty_options\<lparr>message := Undef, statusCode := Undef\<rparr>)) []
       = [Status 500,
          Json [(''status'', JStr ''error''), (''message'', JStr ''Error''),
                (''timestamp'', JStr ''2026-01-01T00:00:00.000Z'')]]
   \<and> field_of ''message''
       (notFound ''2026-01-01T00:00:00.000Z''
          (Some (empty_options\<lparr>message := Undef, statusCode := Undef\<rparr>)) [])
       = [Some (JStr ''Error'')]
   \<and> written_codes
       (notFound ''2026-01-01T00:00:00.000Z''
          (Some (empty_options\<lparr>message := Undef, statusCode := Undef\<rparr>)) [])
       = [500]"
proof -
  have d: "documented NotFound = Some (ERROR, 404, ''Not Found'')" by simp
  show ?thesis
    using helper_explicit_undefined [OF d,
        where now = "''2026-01-01T00:00:00.000Z''" and s = "[]"
          and options = "Some (empty_options\<lparr>message := Undef, statusCode := Undef\<rparr>)"]
    by (simp add: empty_options_def field_of_def notFound_def error_def send_def spread_def
        Let_def)
qed

subsection \<open>Determinism\<close>

text \<open>
  Claim C10. With the instant of the clock a parameter, what a call of \<^verbatim>\<open>send\<close> does to
  the sink depends on the category, the options and the instant only, not on what the
  sink already holds: two calls with the same category, options and instant make the
  same \<^verbatim>\<open>setHeader\<close> calls in the same order, set the same status code and write the same
  envelope.
\<close>

theorem send_deterministic:
  "send now c options s = s @ send now c options []
   \<and> drop (length s) (send now c options s) = drop (length s') (send now c options s')
   \<and> drop (length s) (send now c options s) =
       header_calls (read_field (headers (default_arg options)))
       @ [Status (with_default (statusCode (default_arg options))
                    (case c of SUCCESS \<Rightarrow> 200 | ERROR \<Rightarrow> 500)),
          Json (ResponseEnvelope c
                  (with_default (message (default_arg options))
                     (case c of SUCCESS \<Rightarrow> ''Success'' | ERROR \<Rightarrow> ''Error''))
                  (read_field (data (default_arg options)))
                  (read_field (errors (default_arg options)))
                  (read_field (meta (default_arg options))) now)]"
  by (cases c) (simp_all add: send_eq)

end
